theory Spec2Isabelle
  imports Complex_Main "HOL-Library.Log_Nat"
begin

section \<open>Errors and strings\<close>

text \<open>
  A JavaScript string is read as the list of its code units; the model covers the code
  units below 256, so that an Isabelle \<open>char\<close> is one unit (request headers are Latin-1
  in Node, and every message of the program is Latin-1).

  A handler either answers or hands an error to the error handler of app.js, which
  answers with \<open>err.statusCode || 500\<close>. \<open>AppError message statusCode\<close> is the class
  of utils/error as the routes use it. The routes raise
  \<open>new AppError(JSON.stringify(errors.array()), 422)\<close> for a failed validation:
  \<open>ValidationError\<close> keeps the list of the offending parameters, in chain order,
  in place of the JSON text. \<open>InternalError\<close> is any exception that is not an AppError
  (a Mongoose CastError or document validation failure, a failing jwt.sign).
\<close>

datatype error =
    AppError string nat
  | ValidationError "string list"
  | InternalError

fun statusCode :: "error \<Rightarrow> nat" where
  "statusCode (AppError m s) = s"
| "statusCode (ValidationError fs) = 422"
| "statusCode InternalError = 500"

definition msg_not_found :: string where
  "msg_not_found = ''Produto n'' @ [CHR 0xE3] @ ''o encontrado''"

definition msg_forbidden :: string where
  "msg_forbidden = ''Sem permiss'' @ [CHR 0xE3] @ ''o''"

definition msg_credentials :: string where
  "msg_credentials = ''Credenciais inv'' @ [CHR 0xE1] @ ''lidas''"

definition msg_no_token :: string where
  "msg_no_token = ''Token n'' @ [CHR 0xE3] @ ''o informado''"

definition msg_bad_token :: string where
  "msg_bad_token = ''Token inv'' @ [CHR 0xE1] @ ''lido ou expirado''"

text \<open>\<open>String.prototype.startsWith\<close> and the white space of \<open>trim\<close> and \<open>parseInt\<close>
  (tab, line feed, vertical tab, form feed, carriage return, space, no-break space).\<close>

fun startsWith :: "string \<Rightarrow> string \<Rightarrow> bool" where
  "startsWith s [] = True"
| "startsWith [] (c # cs) = False"
| "startsWith (d # ds) (c # cs) = (d = c \<and> startsWith ds cs)"

definition is_space :: "char \<Rightarrow> bool" where
  "is_space c \<longleftrightarrow>
     c \<in> set [CHR 0x09, CHR 0x0A, CHR 0x0B, CHR 0x0C, CHR 0x0D, CHR 0x20, CHR 0xA0]"

definition trim :: "string \<Rightarrow> string" where
  "trim s = rev (dropWhile is_space (rev (dropWhile is_space s)))"

section \<open>Object ids\<close>

text \<open>
  An ObjectId is kept as its canonical text, 24 lower-case hexadecimal digits, which
  is what \<open>String(product.owner)\<close> yields. \<open>isMongoId\<close> is the validator of
  validator.js (\<open>isHexadecimal(str) && str.length === 24\<close>, where isHexadecimal is
  \<open>/^(0x|0h)?[0-9A-F]+$/i\<close>); \<open>castObjectId\<close> is the cast Mongoose applies to a
  string given as an id: exactly 24 hexadecimal digits, read without regard to case.
\<close>

definition is_hex_digit :: "char \<Rightarrow> bool" where
  "is_hex_digit c \<longleftrightarrow> c \<in> set ''0123456789abcdefABCDEF''"

definition hex_lower :: "char \<Rightarrow> char" where
  "hex_lower c =
     (if c = CHR ''A'' then CHR ''a'' else if c = CHR ''B'' then CHR ''b''
      else if c = CHR ''C'' then CHR ''c'' else if c = CHR ''D'' then CHR ''d''
      else if c = CHR ''E'' then CHR ''e'' else if c = CHR ''F'' then CHR ''f''
      else c)"

definition hex_digits :: "string \<Rightarrow> bool" where
  "hex_digits s \<longleftrightarrow> s \<noteq> [] \<and> list_all is_hex_digit s"

definition isHexadecimal :: "string \<Rightarrow> bool" where
  "isHexadecimal s \<longleftrightarrow>
     hex_digits s \<or>
     (take 2 s \<in> set [''0x'', ''0h'', ''0X'', ''0H''] \<and> hex_digits (drop 2 s))"

definition isMongoId :: "string \<Rightarrow> bool" where
  "isMongoId s \<longleftrightarrow> isHexadecimal s \<and> length s = 24"

definition castObjectId :: "string \<Rightarrow> string option" where
  "castObjectId s =
     (if length s = 24 \<and> list_all is_hex_digit s then Some (map hex_lower s) else None)"

section \<open>Numbers\<close>

text \<open>
  A JavaScript number is a double: NaN, an infinity, or a finite value, kept here as the
  rational it stands for (the sign of zero is not represented). \<open>to_double\<close> is the
  rounding every operation ends with: to the nearest double, ties to the even
  significand, with 53 bits of significand, the smallest exponent at \<open>2 ^ - 1074\<close>
  and overflow to an infinity from \<open>2 ^ 1024\<close> on. An integer up to \<open>2 ^ 53\<close> is a
  double as it stands.
\<close>

datatype jsnum = NaN | PosInf | NegInf | Fin rat

definition round_half_even :: "rat \<Rightarrow> int" where
  "round_half_even q =
     (let f = \<lfloor>q\<rfloor>; r = q - of_int f
      in if r < 1 / 2 then f else if 1 / 2 < r then f + 1 else if even f then f else f + 1)"

definition to_double :: "rat \<Rightarrow> jsnum" where
  "to_double x =
     (if of_int \<lfloor>x\<rfloor> = x \<and> \<bar>x\<bar> \<le> 2 ^ 53 then Fin x
      else (let a = \<bar>x\<bar>;
                e0 = bitlen (fst (quotient_of a)) - bitlen (snd (quotient_of a));
                e = (if a < 2 powi e0 then e0 - 1 else e0);
                u = max (e - 52) (- 1074);
                v = of_int (round_half_even (a / 2 powi u)) * 2 powi u
            in if 2 ^ 1024 \<le> v then (if 0 < x then PosInf else NegInf)
               else Fin (sgn x * v)))"

fun js_sub :: "jsnum \<Rightarrow> jsnum \<Rightarrow> jsnum" where
  "js_sub (Fin x) (Fin y) = to_double (x - y)"
| "js_sub NaN b = NaN"
| "js_sub a NaN = NaN"
| "js_sub PosInf PosInf = NaN"
| "js_sub NegInf NegInf = NaN"
| "js_sub PosInf b = PosInf"
| "js_sub NegInf b = NegInf"
| "js_sub (Fin x) PosInf = NegInf"
| "js_sub (Fin x) NegInf = PosInf"

fun js_mul :: "jsnum \<Rightarrow> jsnum \<Rightarrow> jsnum" where
  "js_mul (Fin x) (Fin y) = to_double (x * y)"
| "js_mul NaN b = NaN"
| "js_mul a NaN = NaN"
| "js_mul PosInf PosInf = PosInf"
| "js_mul NegInf NegInf = PosInf"
| "js_mul PosInf NegInf = NegInf"
| "js_mul NegInf PosInf = NegInf"
| "js_mul PosInf (Fin y) = (if y = 0 then NaN else if 0 < y then PosInf else NegInf)"
| "js_mul NegInf (Fin y) = (if y = 0 then NaN else if 0 < y then NegInf else PosInf)"
| "js_mul (Fin x) PosInf = (if x = 0 then NaN else if 0 < x then PosInf else NegInf)"
| "js_mul (Fin x) NegInf = (if x = 0 then NaN else if 0 < x then NegInf else PosInf)"

subsection \<open>Numbers read from strings\<close>

text \<open>
  \<open>parseInt\<close> is \<open>parseInt(str, 10)\<close>: leading white space, an optional sign, then the
  longest run of decimal digits; NaN when there is none. \<open>StringToNumber\<close> is the
  conversion a string undergoes in arithmetic and in \<open>Number(str)\<close>: the whole string,
  white space at both ends apart, must be a numeric literal (empty, \<open>Infinity\<close>, a
  decimal literal with optional fraction and exponent, or an unsigned literal in base
  16, 8 or 2), and is NaN otherwise.
\<close>

definition is_digit :: "char \<Rightarrow> bool" where
  "is_digit c \<longleftrightarrow> c \<in> set ''0123456789''"

definition digit_val :: "char \<Rightarrow> int" where
  "digit_val c = of_char c - 48"

definition digits_value :: "string \<Rightarrow> int" where
  "digits_value z = foldl (\<lambda>a c. 10 * a + digit_val c) 0 z"

definition hex_val :: "char \<Rightarrow> int" where
  "hex_val c =
     (if is_digit c then of_char c - 48
      else if c \<in> set ''abcdef'' then of_char c - 87
      else of_char c - 55)"

definition radix_value :: "int \<Rightarrow> string \<Rightarrow> int" where
  "radix_value base z = foldl (\<lambda>a c. base * a + hex_val c) 0 z"

definition parseInt :: "string \<Rightarrow> jsnum" where
  "parseInt s =
     (let t = dropWhile is_space s;
          u = (if startsWith t ''-'' \<or> startsWith t ''+'' then drop 1 t else t);
          z = takeWhile is_digit u
      in if z = [] then NaN
         else to_double (of_int ((if startsWith t ''-'' then - 1 else 1) * digits_value z)))"

definition radix_literal :: "int \<Rightarrow> string \<Rightarrow> string \<Rightarrow> jsnum" where
  "radix_literal base digits z =
     (if z \<noteq> [] \<and> list_all (\<lambda>c. c \<in> set digits) z then to_double (of_int (radix_value base z))
      else NaN)"

definition decimal_literal :: "string \<Rightarrow> jsnum" where
  "decimal_literal t =
     (let u = (if startsWith t ''-'' \<or> startsWith t ''+'' then drop 1 t else t);
          ip = takeWhile is_digit u;
          r1 = dropWhile is_digit u;
          fp = (if startsWith r1 ''.'' then takeWhile is_digit (drop 1 r1) else []);
          r2 = (if startsWith r1 ''.'' then dropWhile is_digit (drop 1 r1) else r1);
          has_exp = (startsWith r2 ''e'' \<or> startsWith r2 ''E'');
          r3 = drop 1 r2;
          r4 = (if startsWith r3 ''-'' \<or> startsWith r3 ''+'' then drop 1 r3 else r3);
          ex = (if has_exp then (if startsWith r3 ''-'' then - 1 else 1) * digits_value r4 else 0)
      in if u = ''Infinity'' then (if startsWith t ''-'' then NegInf else PosInf)
         else if (ip = [] \<and> fp = []) \<or>
                 (if has_exp then r4 = [] \<or> \<not> list_all is_digit r4 else r2 \<noteq> []) then NaN
         else to_double ((if startsWith t ''-'' then - 1 else 1) *
                of_int (digits_value (ip @ fp)) * 10 powi (ex - int (length fp))))"

definition StringToNumber :: "string \<Rightarrow> jsnum" where
  "StringToNumber s =
     (let t = trim s
      in if t = [] then Fin 0
         else if take 2 t \<in> set [''0x'', ''0X''] then
           radix_literal 16 ''0123456789abcdefABCDEF'' (drop 2 t)
         else if take 2 t \<in> set [''0o'', ''0O''] then radix_literal 8 ''01234567'' (drop 2 t)
         else if take 2 t \<in> set [''0b'', ''0B''] then radix_literal 2 ''01'' (drop 2 t)
         else decimal_literal t)"

text \<open>A value of the request: a number or a string. \<open>ToNumber\<close> is its conversion in
  arithmetic.\<close>

datatype jsval = JNum jsnum | JStr string

fun ToNumber :: "jsval \<Rightarrow> jsnum" where
  "ToNumber (JNum n) = n"
| "ToNumber (JStr s) = StringToNumber s"

text \<open>
  The validators. \<open>toInt\<close> is the sanitizer of validator.js, \<open>parseInt(str, 10)\<close>.
  \<open>isInt\<close> tests the text of a value (\<open>/^[-+]?[0-9]+$/\<close>, which a number prints to
  exactly when it is an integer below \<open>10 ^ 21\<close>; NaN prints to the empty text) and its
  bounds.
\<close>

definition toInt :: "string \<Rightarrow> jsnum" where
  "toInt s = parseInt s"

definition isInt :: "jsnum \<Rightarrow> int \<Rightarrow> int option \<Rightarrow> bool" where
  "isInt v lo hi =
     (case v of
        Fin x \<Rightarrow>
          of_int \<lfloor>x\<rfloor> = x \<and> \<bar>x\<bar> < 10 ^ 21 \<and> of_int lo \<le> x \<and>
          (case hi of None \<Rightarrow> True | Some h \<Rightarrow> x \<le> of_int h)
      | _ \<Rightarrow> False)"

text \<open>\<open>value || d\<close> on an optional query parameter: the parameter itself unless it is
  undefined or the empty string.\<close>

definition or_default :: "string option \<Rightarrow> jsnum \<Rightarrow> jsval" where
  "or_default v d =
     (case v of
        None \<Rightarrow> JNum d
      | Some s \<Rightarrow> if s = [] then JNum d else JStr s)"

section \<open>Products and their collection\<close>

text \<open>
  The schema of models/Product: \<open>oid\<close> is the document's \<open>_id\<close>. The collection is
  the list of its documents; nothing removes a document. Request bodies are read as
  well-typed JSON objects over the paths of the schema: a field is absent (\<open>None\<close>) or
  carries a value of the type the schema declares. The code does no arithmetic on
  prices and stocks: a price is read as a rational, a stock as an integer.
\<close>

record product =
  oid :: string
  name :: string
  description :: string
  price :: rat
  stock :: int
  active :: bool
  owner :: string

type_synonym collection = "product list"

record product_body =
  b_name :: "string option"
  b_description :: "string option"
  b_price :: "rat option"
  b_stock :: "int option"
  b_active :: "bool option"
  b_owner :: "string option"

definition no_fields :: product_body where
  "no_fields = \<lparr>b_name = None, b_description = None, b_price = None, b_stock = None,
     b_active = None, b_owner = None\<rparr>"

text \<open>\<open>Product.findById(id)\<close>: the id is cast first (a CastError rejects the query),
  then the document with that \<open>_id\<close> or null.\<close>

definition lookup :: "collection \<Rightarrow> string \<Rightarrow> product option" where
  "lookup c k = List.find (\<lambda>p. oid p = k) c"

definition findById :: "collection \<Rightarrow> string \<Rightarrow> error + product option" where
  "findById c pid =
     (case castObjectId pid of
        None \<Rightarrow> Inl InternalError
      | Some k \<Rightarrow> Inr (lookup c k))"

text \<open>\<open>product.save()\<close> validates the document against the schema (name required after
  trimming, price and stock at least 0) and then writes it over the stored document
  with the same \<open>_id\<close>.\<close>

definition schema_valid :: "product \<Rightarrow> bool" where
  "schema_valid p \<longleftrightarrow> name p \<noteq> [] \<and> 0 \<le> price p \<and> 0 \<le> stock p"

fun store :: "product \<Rightarrow> collection \<Rightarrow> collection" where
  "store p [] = []"
| "store p (q # qs) = (if oid q = oid p then p # qs else q # store p qs)"

definition save :: "product \<Rightarrow> collection \<Rightarrow> error + collection" where
  "save p c = (if schema_valid p then Inr (store p c) else Inl InternalError)"

section \<open>Resource lifecycle operations\<close>

text \<open>Reading a product is public. Create, update and delete run behind the auth guard:
  \<open>actor\<close> is \<open>req.user.id\<close>, the subject of the verified token.\<close>

subsection \<open>GET /products/:id\<close>

definition get_product :: "collection \<Rightarrow> string \<Rightarrow> error + product" where
  "get_product c pid =
     (if \<not> isMongoId pid then Inl (ValidationError [''id''])
      else case findById c pid of
        Inl e \<Rightarrow> Inl e
      | Inr None \<Rightarrow> Inl (AppError msg_not_found 404)
      | Inr (Some item) \<Rightarrow>
          if \<not> active item then Inl (AppError msg_not_found 404) else Inr item)"

subsection \<open>POST /products\<close>

definition create_checks :: "product_body \<Rightarrow> string list" where
  "create_checks b =
     (case b_name b of None \<Rightarrow> [''name''] | Some n \<Rightarrow> if n \<noteq> [] then [] else [''name''])
     @ (case b_price b of None \<Rightarrow> [''price''] | Some x \<Rightarrow> if 0 \<le> x then [] else [''price''])
     @ (case b_stock b of None \<Rightarrow> []
        | Some k \<Rightarrow> if isInt (Fin (of_int k)) 0 None then [] else [''stock''])"

text \<open>\<open>new_id\<close> is the \<open>_id\<close> the driver generates for the new document.\<close>

definition create_product ::
  "string \<Rightarrow> collection \<Rightarrow> string \<Rightarrow> product_body \<Rightarrow> error + collection \<times> product" where
  "create_product new_id c actor b =
     (if create_checks b \<noteq> [] then Inl (ValidationError (create_checks b))
      else case castObjectId actor of
        None \<Rightarrow> Inl InternalError
      | Some w \<Rightarrow>
          (let created = \<lparr>oid = new_id,
                 name = trim (case b_name b of None \<Rightarrow> [] | Some n \<Rightarrow> n),
                 description = (case b_description b of None \<Rightarrow> [] | Some d \<Rightarrow> d),
                 price = (case b_price b of None \<Rightarrow> 0 | Some x \<Rightarrow> x),
                 stock = (case b_stock b of None \<Rightarrow> 0 | Some k \<Rightarrow> k),
                 active = True,
                 owner = w\<rparr>
           in if schema_valid created then Inr (c @ [created], created)
              else Inl InternalError))"

subsection \<open>PATCH /products/:id\<close>

definition patch_checks :: "string \<Rightarrow> product_body \<Rightarrow> string list" where
  "patch_checks pid b =
     (if isMongoId pid then [] else [''id''])
     @ (case b_name b of None \<Rightarrow> [] | Some n \<Rightarrow> if n \<noteq> [] then [] else [''name''])
     @ (case b_price b of None \<Rightarrow> [] | Some x \<Rightarrow> if 0 \<le> x then [] else [''price''])
     @ (case b_stock b of None \<Rightarrow> []
        | Some k \<Rightarrow> if isInt (Fin (of_int k)) 0 None then [] else [''stock''])"

text \<open>\<open>Object.assign(product, req.body)\<close> sets every path the body carries, through
  the setters of the document: the name is trimmed, the owner is cast to an ObjectId.
  A failed cast (\<open>None\<close>) makes the following save reject.\<close>

definition assign :: "product \<Rightarrow> product_body \<Rightarrow> product option" where
  "assign p b =
     (let p1 = (case b_name b of None \<Rightarrow> p | Some n \<Rightarrow> p\<lparr>name := trim n\<rparr>);
          p2 = (case b_description b of None \<Rightarrow> p1 | Some d \<Rightarrow> p1\<lparr>description := d\<rparr>);
          p3 = (case b_price b of None \<Rightarrow> p2 | Some x \<Rightarrow> p2\<lparr>price := x\<rparr>);
          p4 = (case b_stock b of None \<Rightarrow> p3 | Some k \<Rightarrow> p3\<lparr>stock := k\<rparr>);
          p5 = (case b_active b of None \<Rightarrow> p4 | Some a \<Rightarrow> p4\<lparr>active := a\<rparr>)
      in case b_owner b of
           None \<Rightarrow> Some p5
         | Some s \<Rightarrow> map_option (\<lambda>w. p5\<lparr>owner := w\<rparr>) (castObjectId s))"

definition patch_product ::
  "collection \<Rightarrow> string \<Rightarrow> string \<Rightarrow> product_body \<Rightarrow> error + collection \<times> product" where
  "patch_product c actor pid b =
     (if patch_checks pid b \<noteq> [] then Inl (ValidationError (patch_checks pid b))
      else case findById c pid of
        Inl e \<Rightarrow> Inl e
      | Inr None \<Rightarrow> Inl (AppError msg_not_found 404)
      | Inr (Some p) \<Rightarrow>
          if \<not> active p then Inl (AppError msg_not_found 404)
          else if owner p \<noteq> actor then Inl (AppError msg_forbidden 403)
          else (case assign p b of
                  None \<Rightarrow> Inl InternalError
                | Some p' \<Rightarrow>
                    (case save p' c of Inl e \<Rightarrow> Inl e | Inr c' \<Rightarrow> Inr (c', p'))))"

subsection \<open>DELETE /products/:id\<close>

definition delete_product :: "collection \<Rightarrow> string \<Rightarrow> string \<Rightarrow> error + collection" where
  "delete_product c actor pid =
     (if \<not> isMongoId pid then Inl (ValidationError [''id''])
      else case findById c pid of
        Inl e \<Rightarrow> Inl e
      | Inr None \<Rightarrow> Inl (AppError msg_not_found 404)
      | Inr (Some p) \<Rightarrow>
          if \<not> active p then Inl (AppError msg_not_found 404)
          else if owner p \<noteq> actor then Inl (AppError msg_forbidden 403)
          else save (p\<lparr>active := False\<rparr>) c)"

section \<open>Listing query builder\<close>

subsection \<open>The query\<close>

text \<open>
  The application runs on Express 5 (README), where \<open>req.query\<close> is computed from the
  URL at every access: the validators run on their own sanitised copy of a parameter,
  and the handler reads the parameter as the client sent it.

  The query parameters are single-valued: absent, or one string. The sort object is
  the map from its keys to 1 or -1 (the order of its keys is not represented).
  \<open>set_prop\<close> is the assignment \<open>sort[key] = v\<close> on an object literal: the key
  \<open>__proto__\<close> is the accessor of Object.prototype, whose setter ignores a number
  and creates no property.
\<close>

record list_request =
  q_search :: "string option"
  q_page :: "string option"
  q_limit :: "string option"
  q_sort :: "string option"

record filter_doc =
  f_active :: bool
  f_text :: "string option"

type_synonym sort_doc = "string \<rightharpoonup> int"

record find_query =
  q_filter :: filter_doc
  q_sorting :: sort_doc
  q_skip :: jsnum
  q_lim :: jsval

record listing =
  page :: jsval
  limit :: jsval
  total :: nat
  items :: "product list"

fun split :: "string \<Rightarrow> char \<Rightarrow> string list" where
  "split [] sep = [[]]"
| "split (c # cs) sep =
     (if c = sep then [] # split cs sep
      else (case split cs sep of [] \<Rightarrow> [[c]] | t # ts \<Rightarrow> (c # t) # ts))"

definition set_prop :: "sort_doc \<Rightarrow> string \<Rightarrow> int \<Rightarrow> sort_doc" where
  "set_prop obj k v = (if k = ''__proto__'' then obj else obj(k \<mapsto> v))"

definition sort_step :: "sort_doc \<Rightarrow> string \<Rightarrow> sort_doc" where
  "sort_step obj field =
     (if startsWith field ''-'' then set_prop obj (drop 1 field) (- 1)
      else set_prop obj field 1)"

definition sort_of :: "string option \<Rightarrow> sort_doc" where
  "sort_of s =
     (case s of
        None \<Rightarrow> [''createdAt'' \<mapsto> - 1]
      | Some x \<Rightarrow>
          if x = [] then [''createdAt'' \<mapsto> - 1]
          else foldl sort_step Map.empty (split x (CHR '','')))"

text \<open>The chain \<open>query('page').optional().toInt().isInt({ min: 1 })\<close> runs in the order
  written: \<open>isInt\<close> tests the number that \<open>toInt\<close> has made of the parameter.\<close>

definition list_checks :: "list_request \<Rightarrow> string list" where
  "list_checks r =
     (case q_page r of None \<Rightarrow> [] | Some s \<Rightarrow> if isInt (toInt s) 1 None then [] else [''page''])
     @ (case q_limit r of None \<Rightarrow> []
        | Some s \<Rightarrow> if isInt (toInt s) 1 (Some 100) then [] else [''limit''])"

definition page_of :: "list_request \<Rightarrow> jsval" where
  "page_of r = or_default (q_page r) (Fin 1)"

definition limit_of :: "list_request \<Rightarrow> jsval" where
  "limit_of r = or_default (q_limit r) (Fin 10)"

definition filter_of :: "list_request \<Rightarrow> filter_doc" where
  "filter_of r =
     \<lparr>f_active = True,
      f_text = (case q_search r of None \<Rightarrow> None | Some s \<Rightarrow> if s = [] then None else Some s)\<rparr>"

definition list_query :: "list_request \<Rightarrow> find_query" where
  "list_query r =
     \<lparr>q_filter = filter_of r,
      q_sorting = sort_of (q_sort r),
      q_skip = js_mul (js_sub (ToNumber (page_of r)) (Fin 1)) (ToNumber (limit_of r)),
      q_lim = limit_of r\<rparr>"

subsection \<open>The persistence collaborator\<close>

text \<open>
  What \<open>Product.find(filter).sort(sort).skip(skip).limit(limit)\<close> and
  \<open>Product.countDocuments(filter)\<close> answer on a collection.

  \<open>castNumber\<close> is the cast \<open>Query.limit\<close> applies to a string (\<open>Number(val)\<close>, a
  CastError on NaN); a number is taken as it is. The database refuses a sort object
  with an empty field name. A skip or limit that is an integer from 0 to \<open>2 ^ 53\<close> is
  read as that count, a limit of 0 meaning no limit.

  The rest is a parameter: \<open>txt s p\<close> says whether document \<open>p\<close> matches the search
  \<open>s\<close>; \<open>srt\<close> orders the matching documents by a sort object, or refuses the sort
  object (\<open>None\<close>); \<open>reads\<close> is the count the driver and the server read from any
  other number, or \<open>None\<close> when they refuse it.
\<close>

definition matches :: "(string \<Rightarrow> product \<Rightarrow> bool) \<Rightarrow> filter_doc \<Rightarrow> product \<Rightarrow> bool" where
  "matches txt f p \<longleftrightarrow>
     active p = f_active f \<and> (case f_text f of None \<Rightarrow> True | Some s \<Rightarrow> txt s p)"

definition returns_given :: "(sort_doc \<Rightarrow> product list \<Rightarrow> product list option) \<Rightarrow> bool" where
  "returns_given srt \<longleftrightarrow> (\<forall>s xs ys. srt s xs = Some ys \<longrightarrow> set ys \<subseteq> set xs)"

definition castNumber :: "jsval \<Rightarrow> jsnum option" where
  "castNumber v =
     (case v of
        JNum n \<Rightarrow> Some n
      | JStr s \<Rightarrow> (case StringToNumber s of NaN \<Rightarrow> None | n \<Rightarrow> Some n))"

definition db_count :: "(jsnum \<Rightarrow> nat option) \<Rightarrow> jsnum \<Rightarrow> nat option" where
  "db_count reads v =
     (case v of
        Fin x \<Rightarrow>
          if of_int \<lfloor>x\<rfloor> = x \<and> 0 \<le> x \<and> x \<le> 2 ^ 53 then Some (nat \<lfloor>x\<rfloor>) else reads v
      | _ \<Rightarrow> reads v)"

definition find_docs ::
  "(sort_doc \<Rightarrow> product list \<Rightarrow> product list option) \<Rightarrow> (jsnum \<Rightarrow> nat option) \<Rightarrow>
   (string \<Rightarrow> product \<Rightarrow> bool) \<Rightarrow> find_query \<Rightarrow> collection \<Rightarrow> error + product list" where
  "find_docs srt reads txt q c =
     (case castNumber (q_lim q) of
        None \<Rightarrow> Inl InternalError
      | Some lm \<Rightarrow>
          if q_sorting q [] \<noteq> None then Inl InternalError
          else (case srt (q_sorting q) (filter (matches txt (q_filter q)) c) of
                  None \<Rightarrow> Inl InternalError
                | Some sorted_docs \<Rightarrow>
                    (case db_count reads (q_skip q) of
                       None \<Rightarrow> Inl InternalError
                     | Some n \<Rightarrow>
                         (case db_count reads lm of
                            None \<Rightarrow> Inl InternalError
                          | Some l \<Rightarrow>
                              Inr (if l = 0 then drop n sorted_docs
                                   else take l (drop n sorted_docs))))))"

definition countDocuments ::
  "(string \<Rightarrow> product \<Rightarrow> bool) \<Rightarrow> filter_doc \<Rightarrow> collection \<Rightarrow> nat" where
  "countDocuments txt f c = length (filter (matches txt f) c)"

subsection \<open>GET /products\<close>

definition list_products ::
  "(sort_doc \<Rightarrow> product list \<Rightarrow> product list option) \<Rightarrow> (jsnum \<Rightarrow> nat option) \<Rightarrow>
   (string \<Rightarrow> product \<Rightarrow> bool) \<Rightarrow> collection \<Rightarrow> list_request \<Rightarrow> error + listing" where
  "list_products srt reads txt c r =
     (if list_checks r \<noteq> [] then Inl (ValidationError (list_checks r))
      else case find_docs srt reads txt (list_query r) c of
        Inl e \<Rightarrow> Inl e
      | Inr docs \<Rightarrow>
          Inr \<lparr>page = page_of r,
               limit = limit_of r,
               total = countDocuments txt (filter_of r) c,
               items = docs\<rparr>)"

section \<open>Authentication\<close>

subsection \<open>The auth guard\<close>

text \<open>
  middlewares/auth.js. \<open>verify token\<close> stands for
  \<open>jwt.verify(token, process.env.JWT_SECRET)\<close> of the jsonwebtoken library: the
  payload, or \<open>None\<close> when it throws.
\<close>

record token_payload =
  sub :: string
  email :: string

record req_user =
  user_id :: string
  user_email :: string

definition auth :: "(string \<Rightarrow> token_payload option) \<Rightarrow> string option \<Rightarrow> error + req_user" where
  "auth verify authorization =
     (let header = (case authorization of None \<Rightarrow> [] | Some h \<Rightarrow> h);
          token = (if startsWith header ''Bearer '' then Some (drop 7 header) else None)
      in case token of
           None \<Rightarrow> Inl (AppError msg_no_token 401)
         | Some t \<Rightarrow>
             if t = [] then Inl (AppError msg_no_token 401)
             else (case verify t of
                     None \<Rightarrow> Inl (AppError msg_bad_token 401)
                   | Some payload \<Rightarrow>
                       Inr \<lparr>user_id = sub payload, user_email = email payload\<rparr>))"

subsection \<open>POST /auth/login\<close>

text \<open>
  The user records and their \<open>comparePassword\<close> belong to models/User;
  \<open>comparePassword\<close>, the \<open>isEmail\<close> validator and the signing function
  \<open>sign email subject\<close> (\<open>jwt.sign\<close> with the configured secret and expiry; \<open>None\<close>
  when it throws) are parameters.
\<close>

record user =
  u_id :: string
  u_name :: string
  u_email :: string
  u_password :: string

record login_response =
  r_id :: string
  r_name :: string
  r_email :: string
  r_token :: string

definition findOne :: "user list \<Rightarrow> string \<Rightarrow> user option" where
  "findOne us e = List.find (\<lambda>u. u_email u = e) us"

definition login_checks :: "(string \<Rightarrow> bool) \<Rightarrow> string \<Rightarrow> string \<Rightarrow> string list" where
  "login_checks isEmail e pw =
     (if isEmail e then [] else [''email'']) @ (if pw \<noteq> [] then [] else [''password''])"

definition login ::
  "(string \<Rightarrow> bool) \<Rightarrow> (user \<Rightarrow> string \<Rightarrow> bool) \<Rightarrow> (string \<Rightarrow> string \<Rightarrow> string option) \<Rightarrow>
   user list \<Rightarrow> string \<Rightarrow> string \<Rightarrow> error + login_response" where
  "login isEmail comparePassword sign us e pw =
     (if login_checks isEmail e pw \<noteq> [] then Inl (ValidationError (login_checks isEmail e pw))
      else case findOne us e of
        None \<Rightarrow> Inl (AppError msg_credentials 401)
      | Some u \<Rightarrow>
          if \<not> comparePassword u pw then Inl (AppError msg_credentials 401)
          else (case sign (u_email u) (u_id u) of
                  None \<Rightarrow> Inl InternalError
                | Some t \<Rightarrow>
                    Inr \<lparr>r_id = u_id u, r_name = u_name u, r_email = u_email u, r_token = t\<rparr>))"

subsection \<open>The token service\<close>

text \<open>
  Modelled from the spec: the Token Service of section 4.1. The routes and the guard
  call \<open>jwt.sign\<close> and \<open>jwt.verify\<close> of the jsonwebtoken library, which is not among
  the sources. In the words of the specification, \<open>issue(userId, email)\<close> produces a
  signed token whose payload carries the subject, the email and an expiry (a pure
  function of its inputs, the secret and the clock), and \<open>verify(token)\<close> yields the
  subject and email, or fails when the signature is invalid, the token is malformed, or
  it is expired.

  The signature is symbolic: \<open>Signed secret payload expiry\<close> is the signature that the
  holder of \<open>secret\<close> makes over a payload and its expiry, and no other value is one.
  The clock (\<open>now\<close>, in seconds), the lifetime \<open>ttl\<close> and the wire format of a token
  (\<open>encode\<close>, and \<open>decode\<close> which yields \<open>None\<close> on a malformed text) are parameters.
\<close>

datatype signature = Signed string token_payload nat

record token =
  claims :: token_payload
  expiry :: nat
  sig :: signature

definition issue :: "string \<Rightarrow> nat \<Rightarrow> nat \<Rightarrow> string \<Rightarrow> string \<Rightarrow> token" where
  "issue secret now ttl userId mail =
     \<lparr>claims = \<lparr>sub = userId, email = mail\<rparr>,
      expiry = now + ttl,
      sig = Signed secret \<lparr>sub = userId, email = mail\<rparr> (now + ttl)\<rparr>"

definition verify_token :: "string \<Rightarrow> nat \<Rightarrow> token \<Rightarrow> token_payload option" where
  "verify_token secret now t =
     (if sig t \<noteq> Signed secret (claims t) (expiry t) then None
      else if expiry t \<le> now then None
      else Some (claims t))"

definition jwt_sign ::
  "(token \<Rightarrow> string) \<Rightarrow> string \<Rightarrow> nat \<Rightarrow> nat \<Rightarrow> string \<Rightarrow> string \<Rightarrow> string option" where
  "jwt_sign encode secret now ttl mail subject =
     Some (encode (issue secret now ttl subject mail))"

definition jwt_verify ::
  "(string \<Rightarrow> token option) \<Rightarrow> string \<Rightarrow> nat \<Rightarrow> string \<Rightarrow> token_payload option" where
  "jwt_verify decode secret now text =
     (case decode text of
        None \<Rightarrow> None
      | Some t \<Rightarrow> verify_token secret now t)"

section \<open>The sort parameter in the words of the specification\<close>

text \<open>
  The specification reads the sort parameter as a comma-separated list of field tokens,
  a leading \<open>-\<close> meaning descending. \<open>spec_field\<close> and \<open>spec_direction\<close> are the
  field and the direction a token stands for, \<open>spec_sort\<close> is the sort a list of
  tokens describes (the last token naming a field decides its direction), and \<open>join\<close>
  puts the tokens back together with the separator between them.
\<close>

definition spec_field :: "string \<Rightarrow> string" where
  "spec_field t = (if startsWith t ''-'' then drop 1 t else t)"

definition spec_direction :: "string \<Rightarrow> int" where
  "spec_direction t = (if startsWith t ''-'' then - 1 else 1)"

definition spec_sort :: "string list \<Rightarrow> string \<Rightarrow> int option" where
  "spec_sort ts k = map_option spec_direction (List.find (\<lambda>t. spec_field t = k) (rev ts))"

fun join :: "string list \<Rightarrow> char \<Rightarrow> string" where
  "join [] sep = []"
| "join [t] sep = t"
| "join (t # u # ts) sep = t @ sep # join (u # ts) sep"

section \<open>Example data\<close>

text \<open>Two users, a product of the first one, the same product after a soft delete, and
  two update bodies.\<close>

definition ex_alice :: string where
  "ex_alice = ''aaaaaaaaaaaaaaaaaaaaaaaa''"

definition ex_bob :: string where
  "ex_bob = ''bbbbbbbbbbbbbbbbbbbbbbbb''"

definition ex_pid :: string where
  "ex_pid = ''0123456789abcdef01234567''"

definition ex_keyboard :: product where
  "ex_keyboard = \<lparr>oid = ex_pid, name = ''Keyboard'', description = [], price = 1999 / 10,
     stock = 0, active = True, owner = ex_alice\<rparr>"

definition ex_retired :: product where
  "ex_retired = ex_keyboard\<lparr>active := False\<rparr>"

definition ex_reactivate :: product_body where
  "ex_reactivate = no_fields\<lparr>b_active := Some True\<rparr>"

definition ex_transfer :: product_body where
  "ex_transfer = no_fields\<lparr>b_owner := Some ex_bob\<rparr>"

text \<open>A database that returns the matching documents in their stored order, has no text
  index and refuses every number that is not a count, and listing requests.\<close>

definition natural_order :: "sort_doc \<Rightarrow> product list \<Rightarrow> product list option" where
  "natural_order s xs = Some xs"

definition no_reading :: "jsnum \<Rightarrow> nat option" where
  "no_reading v = None"

definition no_text :: "string \<Rightarrow> product \<Rightarrow> bool" where
  "no_text s p = False"

definition ex_list_all :: list_request where
  "ex_list_all = \<lparr>q_search = None, q_page = None, q_limit = None, q_sort = None\<rparr>"




text \<open>A registered user, and stand-ins for the validator, the password comparison and
  the token library.\<close>

definition ex_lucas :: user where
  "ex_lucas = \<lparr>u_id = ex_alice, u_name = ''Lucas'', u_email = ''lucas@mail.com'',
     u_password = ''123456''\<rparr>"

definition ex_isEmail :: "string \<Rightarrow> bool" where
  "ex_isEmail e \<longleftrightarrow> CHR ''@'' \<in> set e"

definition ex_compare :: "user \<Rightarrow> string \<Rightarrow> bool" where
  "ex_compare u pw \<longleftrightarrow> u_password u = pw"

definition ex_sign :: "string \<Rightarrow> string \<Rightarrow> string option" where
  "ex_sign e s = Some (s @ ''.'' @ e)"

definition ex_verify :: "string \<Rightarrow> token_payload option" where
  "ex_verify t = Some \<lparr>sub = ex_alice, email = ''lucas@mail.com''\<rparr>"

text \<open>A token issued to that user at time 100 for one hour, the same token with the
  subject altered, and a wire format that knows these two.\<close>

definition ex_token :: token where
  "ex_token = issue ''secret'' 100 3600 ex_alice ''lucas@mail.com''"

definition ex_forged :: token where
  "ex_forged = ex_token\<lparr>claims := \<lparr>sub = ex_bob, email = ''lucas@mail.com''\<rparr>\<rparr>"

definition ex_decode :: "string \<Rightarrow> token option" where
  "ex_decode text =
     (if text = ''issued'' then Some ex_token
      else if text = ''forged'' then Some ex_forged
      else None)"

definition ex_id_422 :: string where
  "ex_id_422 = ''xyz''"

definition ex_id_0x :: string where
  "ex_id_0x = ''0x0123456789abcdef012345''"

definition ex_exponent_limit :: list_request where
  "ex_exponent_limit =
     \<lparr>q_search = None, q_page = None, q_limit = Some ''2e2'', q_sort = None\<rparr>"

definition ex_sort_dash :: list_request where
  "ex_sort_dash = \<lparr>q_search = None, q_page = None, q_limit = None, q_sort = Some ''-''\<rparr>"


section \<open>The collection and the handlers, case by case\<close>

lemmas ex_defs = ex_alice_def ex_bob_def ex_pid_def ex_keyboard_def ex_retired_def

lemmas id_defs = castObjectId_def isMongoId_def isHexadecimal_def hex_digits_def
  is_hex_digit_def hex_lower_def

lemmas num_defs = parseInt_def toInt_def is_space_def is_digit_def digits_value_def
  digit_val_def to_double_def isInt_def or_default_def

lemma castObjectId_isMongoId: "castObjectId pid = Some k \<Longrightarrow> isMongoId pid"
  by (auto simp: castObjectId_def isMongoId_def isHexadecimal_def hex_digits_def split: if_splits)

lemma lookup_oid: "lookup c k = Some p \<Longrightarrow> oid p = k"
  unfolding lookup_def by (induction c) (auto split: if_splits)

lemma lookup_store_same: "lookup c (oid p) \<noteq> None \<Longrightarrow> lookup (store p c) (oid p) = Some p"
  unfolding lookup_def by (induction c) auto

lemma lookup_store_other: "k \<noteq> oid p \<Longrightarrow> lookup (store p c) k = lookup c k"
  unfolding lookup_def by (induction c) auto

lemma oids_store: "map oid (store p c) = map oid c"
  by (induction c) auto

lemma ex_pid_cast: "castObjectId ex_pid = Some ex_pid"
  by (simp add: id_defs ex_pid_def)

lemma patch_product_cases:
  assumes "castObjectId pid = Some k" and "patch_checks pid b = []"
  shows "patch_product c actor pid b =
     (case lookup c k of
        None \<Rightarrow> Inl (AppError msg_not_found 404)
      | Some p \<Rightarrow>
          if \<not> active p then Inl (AppError msg_not_found 404)
          else if owner p \<noteq> actor then Inl (AppError msg_forbidden 403)
          else (case assign p b of
                  None \<Rightarrow> Inl InternalError
                | Some p' \<Rightarrow> if schema_valid p' then Inr (store p' c, p') else Inl InternalError))"
  using assms by (simp add: patch_product_def findById_def save_def split: option.splits)

lemma delete_product_cases:
  assumes "castObjectId pid = Some k"
  shows "delete_product c actor pid =
     (case lookup c k of
        None \<Rightarrow> Inl (AppError msg_not_found 404)
      | Some p \<Rightarrow>
          if \<not> active p then Inl (AppError msg_not_found 404)
          else if owner p \<noteq> actor then Inl (AppError msg_forbidden 403)
          else if schema_valid p then Inr (store (p\<lparr>active := False\<rparr>) c) else Inl InternalError)"
  using assms castObjectId_isMongoId [OF assms]
  by (simp add: delete_product_def findById_def save_def schema_valid_def split: option.splits)

lemma assign_oid: "assign p b = Some p' \<Longrightarrow> oid p' = oid p"
  by (auto simp: assign_def Let_def split: option.splits)

lemma assign_active: "assign p b = Some p' \<Longrightarrow> b_active b = Some a \<Longrightarrow> active p' = a"
  by (auto simp: assign_def Let_def split: option.splits)

lemma assign_only_active: "assign p (no_fields\<lparr>b_active := Some a\<rparr>) = Some (p\<lparr>active := a\<rparr>)"
  by (simp add: assign_def no_fields_def)

lemma get_product_cases:
  assumes "castObjectId pid = Some k"
  shows "get_product c pid =
     (case lookup c k of
        None \<Rightarrow> Inl (AppError msg_not_found 404)
      | Some p \<Rightarrow> if \<not> active p then Inl (AppError msg_not_found 404) else Inr p)"
  using assms castObjectId_isMongoId [OF assms]
  by (simp add: get_product_def findById_def split: option.splits)

lemma get_product_Inr:
  assumes "get_product c pid = Inr p"
  shows "active p \<and> (\<exists>k. castObjectId pid = Some k \<and> lookup c k = Some p)"
  using assms
  by (auto simp: get_product_def findById_def split: if_splits option.splits sum.splits)

section \<open>Access control\<close>

text \<open>
  An id that is not a Mongo id stops update and delete at validation, with the 422
  error, although no product has that id.
\<close>

theorem malformed_id_is_422_counterexample:
  "lookup [] ex_id_422 = None
   \<and> delete_product [] ex_alice ex_id_422 = Inl (ValidationError [''id''])
   \<and> patch_product [] ex_alice ex_id_422 no_fields = Inl (ValidationError [''id''])"
  by (simp add: lookup_def delete_product_def patch_product_def patch_checks_def no_fields_def
      ex_id_422_def isMongoId_def)

text \<open>
  The validator and the cast do not agree on every id: \<open>0x\<close> followed by 22
  hexadecimal digits passes \<open>isMongoId\<close> and is not the text of an ObjectId, and the
  lookup ends in the 500 error.
\<close>

lemma validated_id_not_cast:
  "isMongoId ex_id_0x \<and> castObjectId ex_id_0x = None
   \<and> get_product c ex_id_0x = Inl InternalError
   \<and> delete_product c actor ex_id_0x = Inl InternalError
   \<and> patch_product c actor ex_id_0x no_fields = Inl InternalError"
proof -
  have v: "isMongoId ex_id_0x" and n: "castObjectId ex_id_0x = None"
    by (simp_all add: id_defs ex_id_0x_def)
  then show ?thesis
    by (simp add: get_product_def delete_product_def patch_product_def patch_checks_def
        no_fields_def findById_def)
qed

text \<open>
  C1, as amended. Update and delete validate the request, then look the product up, then
  compare owners. An id that is not a Mongo id, or for update an invalid body, fails
  with the 422 validation error. For the text \<open>pid\<close> of an ObjectId \<open>k\<close> (and, for
  update, a valid body): when no product has that id, or the product is inactive, the
  operation fails with the 404 error "not found", whoever the actor is; it answers 404
  exactly in that case, and answers 403 exactly when the product exists, is active and
  its owner differs from the actor's id.
\<close>

theorem existence_check_precedes_ownership:
  "(\<not> isMongoId pid \<longrightarrow>
      delete_product c actor pid = Inl (ValidationError [''id'']) \<and>
      patch_product c actor pid b = Inl (ValidationError (patch_checks pid b)) \<and>
      statusCode (ValidationError (patch_checks pid b)) = 422)
   \<and> (patch_checks pid b \<noteq> [] \<longrightarrow>
        patch_product c actor pid b = Inl (ValidationError (patch_checks pid b)))
   \<and> (castObjectId pid = Some k \<longrightarrow>
        ((lookup c k = None \<or> (\<exists>p. lookup c k = Some p \<and> \<not> active p)) \<longrightarrow>
           delete_product c actor pid = Inl (AppError msg_not_found 404))
        \<and> ((\<exists>e. delete_product c actor pid = Inl e \<and> statusCode e = 404) \<longleftrightarrow>
             (lookup c k = None \<or> (\<exists>p. lookup c k = Some p \<and> \<not> active p)))
        \<and> ((\<exists>e. delete_product c actor pid = Inl e \<and> statusCode e = 403) \<longleftrightarrow>
             (\<exists>p. lookup c k = Some p \<and> active p \<and> owner p \<noteq> actor)))
   \<and> (castObjectId pid = Some k \<and> patch_checks pid b = [] \<longrightarrow>
        ((lookup c k = None \<or> (\<exists>p. lookup c k = Some p \<and> \<not> active p)) \<longrightarrow>
           patch_product c actor pid b = Inl (AppError msg_not_found 404))
        \<and> ((\<exists>e. patch_product c actor pid b = Inl e \<and> statusCode e = 404) \<longleftrightarrow>
             (lookup c k = None \<or> (\<exists>p. lookup c k = Some p \<and> \<not> active p)))
        \<and> ((\<exists>e. patch_product c actor pid b = Inl e \<and> statusCode e = 403) \<longleftrightarrow>
             (\<exists>p. lookup c k = Some p \<and> active p \<and> owner p \<noteq> actor)))"
proof -
  have bad_id: "\<not> isMongoId pid \<longrightarrow>
      delete_product c actor pid = Inl (ValidationError [''id'']) \<and>
      patch_product c actor pid b = Inl (ValidationError (patch_checks pid b)) \<and>
      statusCode (ValidationError (patch_checks pid b)) = 422"
    by (simp add: delete_product_def patch_product_def patch_checks_def)
  have bad_req: "patch_checks pid b \<noteq> [] \<longrightarrow>
      patch_product c actor pid b = Inl (ValidationError (patch_checks pid b))"
    by (simp add: patch_product_def)
  have del: "((lookup c k = None \<or> (\<exists>p. lookup c k = Some p \<and> \<not> active p)) \<longrightarrow>
           delete_product c actor pid = Inl (AppError msg_not_found 404))
        \<and> ((\<exists>e. delete_product c actor pid = Inl e \<and> statusCode e = 404) \<longleftrightarrow>
             (lookup c k = None \<or> (\<exists>p. lookup c k = Some p \<and> \<not> active p)))
        \<and> ((\<exists>e. delete_product c actor pid = Inl e \<and> statusCode e = 403) \<longleftrightarrow>
             (\<exists>p. lookup c k = Some p \<and> active p \<and> owner p \<noteq> actor))"
    if cast: "castObjectId pid = Some k"
  proof (cases "lookup c k")
    case None
    then show ?thesis by (simp add: delete_product_cases [OF cast])
  next
    case (Some p)
    then show ?thesis by (auto simp: delete_product_cases [OF cast])
  qed
  have upd: "((lookup c k = None \<or> (\<exists>p. lookup c k = Some p \<and> \<not> active p)) \<longrightarrow>
           patch_product c actor pid b = Inl (AppError msg_not_found 404))
        \<and> ((\<exists>e. patch_product c actor pid b = Inl e \<and> statusCode e = 404) \<longleftrightarrow>
             (lookup c k = None \<or> (\<exists>p. lookup c k = Some p \<and> \<not> active p)))
        \<and> ((\<exists>e. patch_product c actor pid b = Inl e \<and> statusCode e = 403) \<longleftrightarrow>
             (\<exists>p. lookup c k = Some p \<and> active p \<and> owner p \<noteq> actor))"
    if cast: "castObjectId pid = Some k" and ok: "patch_checks pid b = []"
  proof (cases "lookup c k")
    case None
    then show ?thesis by (simp add: patch_product_cases [OF cast ok])
  next
    case (Some p)
    then show ?thesis by (auto simp: patch_product_cases [OF cast ok] split: option.splits)
  qed
  from bad_id bad_req del upd show ?thesis by blast
qed

theorem existence_check_precedes_ownership_witness:
  "castObjectId ex_pid = Some ex_pid \<and> patch_checks ex_pid no_fields = []
   \<and> lookup [ex_retired] ex_pid = Some ex_retired \<and> \<not> active ex_retired
   \<and> owner ex_retired \<noteq> ex_bob
   \<and> patch_product [ex_retired] ex_bob ex_pid no_fields = Inl (AppError msg_not_found 404)
   \<and> delete_product [ex_retired] ex_bob ex_pid = Inl (AppError msg_not_found 404)
   \<and> \<not> isMongoId ex_id_422
   \<and> delete_product [ex_retired] ex_bob ex_id_422 = Inl (ValidationError [''id''])"
proof -
  have h1: "castObjectId ex_pid = Some ex_pid" by (rule ex_pid_cast)
  have h2: "patch_checks ex_pid no_fields = []"
    by (simp add: patch_checks_def no_fields_def castObjectId_isMongoId [OF h1])
  have h3: "lookup [ex_retired] ex_pid = Some ex_retired"
    by (simp add: lookup_def ex_retired_def ex_keyboard_def)
  have h4: "\<not> active ex_retired" by (simp add: ex_retired_def)
  have h5: "owner ex_retired \<noteq> ex_bob" by (simp add: ex_defs)
  have h6: "\<not> isMongoId ex_id_422" by (simp add: ex_id_422_def isMongoId_def)
  from existence_check_precedes_ownership [of ex_pid "[ex_retired]" ex_bob no_fields ex_pid]
    existence_check_precedes_ownership [of ex_id_422 "[ex_retired]" ex_bob no_fields ex_pid]
    h1 h2 h3 h4 h5 h6
  show ?thesis by blast
qed

section \<open>Soft delete\<close>

text \<open>
  C5. Deleting an active, valid product as its owner succeeds and stores the product
  with \<open>active = False\<close>: the document stays in the collection under its id, the ids
  of the collection and every other document are unchanged. Deleting it again, as
  anyone, fails with the 404 error "not found".
\<close>

theorem soft_delete_then_not_found:
  assumes "castObjectId pid = Some k" and "lookup c k = Some p" and "active p"
    and "owner p = actor" and "schema_valid p"
  shows "delete_product c actor pid = Inr (store (p\<lparr>active := False\<rparr>) c)
       \<and> lookup (store (p\<lparr>active := False\<rparr>) c) k = Some (p\<lparr>active := False\<rparr>)
       \<and> map oid (store (p\<lparr>active := False\<rparr>) c) = map oid c
       \<and> (\<forall>j. j \<noteq> k \<longrightarrow> lookup (store (p\<lparr>active := False\<rparr>) c) j = lookup c j)
       \<and> (\<forall>anyone. delete_product (store (p\<lparr>active := False\<rparr>) c) anyone pid
            = Inl (AppError msg_not_found 404))"
proof -
  let ?q = "p\<lparr>active := False\<rparr>"
  have k: "oid ?q = k" using lookup_oid [OF assms(2)] by simp
  have first: "delete_product c actor pid = Inr (store ?q c)"
    using assms by (simp add: delete_product_cases [OF assms(1)])
  have kept: "lookup (store ?q c) k = Some ?q"
    using lookup_store_same [of c ?q] assms(2) k by simp
  have others: "\<forall>j. j \<noteq> k \<longrightarrow> lookup (store ?q c) j = lookup c j"
    using lookup_store_other [of _ ?q c] k by simp
  have again: "\<forall>anyone. delete_product (store ?q c) anyone pid = Inl (AppError msg_not_found 404)"
    using kept by (simp add: delete_product_cases [OF assms(1)])
  from first kept others again show ?thesis by (simp add: oids_store)
qed

theorem soft_delete_then_not_found_witness:
  "castObjectId ex_pid = Some ex_pid \<and> lookup [ex_keyboard] ex_pid = Some ex_keyboard
   \<and> active ex_keyboard \<and> owner ex_keyboard = ex_alice \<and> schema_valid ex_keyboard
   \<and> delete_product [ex_keyboard] ex_alice ex_pid = Inr [ex_retired]
   \<and> delete_product [ex_retired] ex_alice ex_pid = Inl (AppError msg_not_found 404)"
proof -
  have h1: "castObjectId ex_pid = Some ex_pid" by (rule ex_pid_cast)
  have h2: "lookup [ex_keyboard] ex_pid = Some ex_keyboard"
    by (simp add: lookup_def ex_keyboard_def)
  have h3: "active ex_keyboard" by (simp add: ex_keyboard_def)
  have h4: "owner ex_keyboard = ex_alice" by (simp add: ex_keyboard_def)
  have h5: "schema_valid ex_keyboard" by (simp add: schema_valid_def ex_keyboard_def)
  have s: "store (ex_keyboard\<lparr>active := False\<rparr>) [ex_keyboard] = [ex_retired]"
    by (simp add: ex_retired_def)
  from soft_delete_then_not_found [OF h1 h2 h3 h4 h5] h1 h2 h3 h4 h5
  show ?thesis unfolding s by simp
qed

section \<open>Partial update\<close>

text \<open>
  The update of an inactive product answers 404 before the body is looked at: the owner
  of a soft-deleted product cannot set \<open>active\<close> back to true through the update.
\<close>

theorem update_cannot_reactivate_counterexample:
  "patch_product [ex_retired] ex_alice ex_pid ex_reactivate = Inl (AppError msg_not_found 404)
   \<and> owner ex_retired = ex_alice \<and> active ex_retired = False
   \<and> lookup [ex_retired] ex_pid = Some ex_retired"
proof -
  have v: "patch_checks ex_pid ex_reactivate = []"
    by (simp add: patch_checks_def ex_reactivate_def no_fields_def castObjectId_isMongoId [OF ex_pid_cast])
  have l: "lookup [ex_retired] ex_pid = Some ex_retired"
    by (simp add: lookup_def ex_retired_def ex_keyboard_def)
  show ?thesis
    using l by (simp add: patch_product_cases [OF ex_pid_cast v] ex_retired_def ex_keyboard_def)
qed

text \<open>
  C3, as amended. For a stored, valid product and its owner as actor: when the product
  is active, the update whose body is \<open>{active: a}\<close> succeeds and stores the product
  with \<open>active = a\<close>, for either boolean; every successful update whose valid body
  carries \<open>active = a'\<close> was applied to an active product and stores \<open>active = a'\<close>;
  and the update of an inactive product fails with the 404 error "not found", so that
  an update never reactivates a product.
\<close>

theorem update_sets_active_of_active_product:
  assumes "castObjectId pid = Some k" and "lookup c k = Some p" and "owner p = actor"
    and "schema_valid p"
  shows "(active p \<longrightarrow>
            patch_product c actor pid (no_fields\<lparr>b_active := Some a\<rparr>)
              = Inr (store (p\<lparr>active := a\<rparr>) c, p\<lparr>active := a\<rparr>)
            \<and> lookup (store (p\<lparr>active := a\<rparr>) c) k = Some (p\<lparr>active := a\<rparr>))
       \<and> (patch_checks pid b = [] \<and> b_active b = Some a' \<and>
            patch_product c actor pid b = Inr (c', p') \<longrightarrow>
            active p \<and> active p' = a' \<and> lookup c' k = Some p')
       \<and> (\<not> active p \<and> patch_checks pid b = [] \<longrightarrow>
            patch_product c actor pid b = Inl (AppError msg_not_found 404))"
proof -
  have k: "oid p = k" by (rule lookup_oid [OF assms(2)])
  have v: "patch_checks pid (no_fields\<lparr>b_active := Some a\<rparr>) = []"
    by (simp add: patch_checks_def no_fields_def castObjectId_isMongoId [OF assms(1)])
  have sv: "schema_valid (p\<lparr>active := a\<rparr>)"
    using assms(4) by (simp add: schema_valid_def)
  have one: "active p \<longrightarrow>
      patch_product c actor pid (no_fields\<lparr>b_active := Some a\<rparr>)
        = Inr (store (p\<lparr>active := a\<rparr>) c, p\<lparr>active := a\<rparr>)"
    using assms(2,3) sv by (simp add: patch_product_cases [OF assms(1) v] assign_only_active)
  have kept: "lookup (store (p\<lparr>active := a\<rparr>) c) k = Some (p\<lparr>active := a\<rparr>)"
    using lookup_store_same [of c "p\<lparr>active := a\<rparr>"] assms(2) k by simp
  have two: "patch_checks pid b = [] \<and> b_active b = Some a' \<and>
      patch_product c actor pid b = Inr (c', p') \<longrightarrow>
      active p \<and> active p' = a' \<and> lookup c' k = Some p'"
  proof (intro impI, elim conjE)
    assume vb: "patch_checks pid b = []" and ab: "b_active b = Some a'"
      and ok: "patch_product c actor pid b = Inr (c', p')"
    from ok assms(2) have act: "active p" and as: "assign p b = Some p'" and c': "c' = store p' c"
      by (auto simp: patch_product_cases [OF assms(1) vb] split: if_splits option.splits)
    have "oid p' = k" using assign_oid [OF as] k by simp
    then have "lookup c' k = Some p'"
      using lookup_store_same [of c p'] assms(2) c' by simp
    with act assign_active [OF as ab] show "active p \<and> active p' = a' \<and> lookup c' k = Some p'"
      by simp
  qed
  have three: "\<not> active p \<and> patch_checks pid b = [] \<longrightarrow>
      patch_product c actor pid b = Inl (AppError msg_not_found 404)"
    using assms(2) by (auto simp: patch_product_cases [OF assms(1)])
  from one kept two three show ?thesis by blast
qed

theorem update_sets_active_of_active_product_witness:
  "castObjectId ex_pid = Some ex_pid \<and> lookup [ex_keyboard] ex_pid = Some ex_keyboard
   \<and> owner ex_keyboard = ex_alice \<and> schema_valid ex_keyboard \<and> active ex_keyboard
   \<and> patch_product [ex_keyboard] ex_alice ex_pid (no_fields\<lparr>b_active := Some False\<rparr>)
       = Inr ([ex_retired], ex_retired)"
proof -
  have h1: "castObjectId ex_pid = Some ex_pid" by (rule ex_pid_cast)
  have h2: "lookup [ex_keyboard] ex_pid = Some ex_keyboard"
    by (simp add: lookup_def ex_keyboard_def)
  have h3: "owner ex_keyboard = ex_alice" by (simp add: ex_keyboard_def)
  have h4: "schema_valid ex_keyboard" by (simp add: schema_valid_def ex_keyboard_def)
  have h5: "active ex_keyboard" by (simp add: ex_keyboard_def)
  have r: "ex_keyboard\<lparr>active := False\<rparr> = ex_retired" by (simp add: ex_retired_def)
  have s: "oid ex_retired = oid ex_keyboard" by (simp add: ex_retired_def)
  from update_sets_active_of_active_product [OF h1 h2 h3 h4, of False] h1 h2 h3 h4 h5
  show ?thesis by (simp add: r s)
qed

subsection \<open>The owner of a product\<close>

text \<open>The create handler builds the document field by field: the owner is the cast of
  \<open>req.user.id\<close>, and an \<open>owner\<close> in the body changes nothing.\<close>

lemma create_checks_owner: "create_checks (b\<lparr>b_owner := x\<rparr>) = create_checks b"
  by (simp add: create_checks_def)

lemma create_product_ignores_owner:
  "create_product new_id c actor (b\<lparr>b_owner := x\<rparr>) = create_product new_id c actor b"
  unfolding create_product_def create_checks_owner by (simp split: option.splits)

lemma create_product_owner:
  assumes "create_product new_id c actor b = Inr (c', p)"
  shows "castObjectId actor = Some (owner p) \<and> active p \<and> c' = c @ [p]"
proof (cases "castObjectId actor")
  case None
  with assms show ?thesis by (simp add: create_product_def split: if_splits)
next
  case (Some w)
  with assms show ?thesis by (auto simp: create_product_def Let_def split: if_splits)
qed

text \<open>
  C2, at the failing input. Alice owns the active product \<open>ex_keyboard\<close> and sends the
  update \<open>{owner: <id of Bob>}\<close>: the update succeeds and the stored product now
  belongs to Bob. \<open>Object.assign(product, req.body)\<close> copies the client's \<open>owner\<close>
  into the document.
\<close>

theorem update_changes_owner:
  "patch_product [ex_keyboard] ex_alice ex_pid ex_transfer
     = Inr ([ex_keyboard\<lparr>owner := ex_bob\<rparr>], ex_keyboard\<lparr>owner := ex_bob\<rparr>)
   \<and> owner ex_keyboard = ex_alice \<and> ex_alice \<noteq> ex_bob"
proof -
  have v: "patch_checks ex_pid ex_transfer = []"
    by (simp add: patch_checks_def ex_transfer_def no_fields_def castObjectId_isMongoId [OF ex_pid_cast])
  have l: "lookup [ex_keyboard] ex_pid = Some ex_keyboard"
    by (simp add: lookup_def ex_keyboard_def)
  have b: "castObjectId ex_bob = Some ex_bob"
    by (simp add: id_defs ex_bob_def)
  have a: "assign ex_keyboard ex_transfer = Some (ex_keyboard\<lparr>owner := ex_bob\<rparr>)"
    by (simp add: assign_def ex_transfer_def no_fields_def b)
  have sv: "schema_valid (ex_keyboard\<lparr>owner := ex_bob\<rparr>)"
    by (simp add: schema_valid_def ex_keyboard_def)
  have ne: "ex_alice \<noteq> ex_bob" by (simp add: ex_alice_def ex_bob_def)
  show ?thesis
    using l a sv ne by (simp add: patch_product_cases [OF ex_pid_cast v]) (simp add: ex_keyboard_def)
qed

section \<open>Read paths\<close>

lemma find_docs_subset:
  assumes "returns_given srt" and "find_docs srt reads txt q c = Inr docs"
  shows "set docs \<subseteq> {p \<in> set c. matches txt (q_filter q) p}"
proof -
  from assms(2) obtain sorted_docs where
    s: "srt (q_sorting q) (filter (matches txt (q_filter q)) c) = Some sorted_docs"
    and d: "set docs \<subseteq> set sorted_docs"
    by (auto simp: find_docs_def split: option.splits if_splits
        dest: in_set_takeD in_set_dropD)
  from assms(1) s have "set sorted_docs \<subseteq> set (filter (matches txt (q_filter q)) c)"
    unfolding returns_given_def by blast
  with d show ?thesis by auto
qed



text \<open>
  An id that is not a Mongo id is refused by the validator, with the 422 error, not
  with 404.
\<close>

theorem read_malformed_id_is_422_counterexample:
  "lookup [] ex_id_422 = None
   \<and> get_product [] ex_id_422 = Inl (ValidationError [''id''])
   \<and> statusCode (ValidationError [''id'']) = 422"
  by (simp add: lookup_def get_product_def ex_id_422_def isMongoId_def)

text \<open>
  C4, as amended. Provided the database's ordering returns only documents it was given:
  the filter of every listing query has \<open>active = true\<close> and every document a listing
  returns is a stored document with \<open>active = True\<close>. Read-by-id returns a product only
  if it is stored under that id and active; an id that is not a Mongo id fails with the
  422 validation error; and for the text of an ObjectId, read-by-id fails with the 404
  error "not found" when no product has that id or the product is inactive, and returns
  the product when it is active.
\<close>

theorem inactive_products_never_observable:
  assumes "returns_given srt"
  shows "f_active (q_filter (list_query r))
       \<and> (\<forall>docs. find_docs srt reads txt (list_query r) c = Inr docs \<longrightarrow>
             (\<forall>p \<in> set docs. p \<in> set c \<and> active p))
       \<and> (\<forall>l. list_products srt reads txt c r = Inr l \<longrightarrow>
             (\<forall>p \<in> set (items l). p \<in> set c \<and> active p))
       \<and> (\<forall>p. get_product c pid = Inr p \<longrightarrow>
             active p \<and> (\<exists>k. castObjectId pid = Some k \<and> lookup c k = Some p))
       \<and> (\<not> isMongoId pid \<longrightarrow> get_product c pid = Inl (ValidationError [''id'']))
       \<and> (\<forall>k. castObjectId pid = Some k \<and>
               (lookup c k = None \<or> (\<exists>p. lookup c k = Some p \<and> \<not> active p)) \<longrightarrow>
             get_product c pid = Inl (AppError msg_not_found 404))
       \<and> (\<forall>k p. castObjectId pid = Some k \<and> lookup c k = Some p \<and> active p \<longrightarrow>
             get_product c pid = Inr p)"
proof -
  have f: "f_active (q_filter (list_query r))"
    by (simp add: list_query_def filter_of_def)
  have docs: "\<forall>docs. find_docs srt reads txt (list_query r) c = Inr docs \<longrightarrow>
      (\<forall>p \<in> set docs. p \<in> set c \<and> active p)"
    using find_docs_subset [OF assms, of reads "txt" "list_query r" c] f
    by (auto simp: matches_def)
  have lst: "\<forall>l. list_products srt reads txt c r = Inr l \<longrightarrow>
      (\<forall>p \<in> set (items l). p \<in> set c \<and> active p)"
    using docs by (auto simp: list_products_def split: if_splits sum.splits)
  have only: "\<forall>p. get_product c pid = Inr p \<longrightarrow>
      active p \<and> (\<exists>k. castObjectId pid = Some k \<and> lookup c k = Some p)"
    using get_product_Inr by blast
  have refused: "\<not> isMongoId pid \<longrightarrow> get_product c pid = Inl (ValidationError [''id''])"
    by (simp add: get_product_def)
  have hidden: "\<forall>k. castObjectId pid = Some k \<and>
      (lookup c k = None \<or> (\<exists>p. lookup c k = Some p \<and> \<not> active p)) \<longrightarrow>
      get_product c pid = Inl (AppError msg_not_found 404)"
    by (auto simp: get_product_cases)
  have shown: "\<forall>k p. castObjectId pid = Some k \<and> lookup c k = Some p \<and> active p \<longrightarrow>
      get_product c pid = Inr p"
    by (auto simp: get_product_cases)
  from f docs lst only refused hidden shown show ?thesis by blast
qed

theorem inactive_products_never_observable_witness:
  "returns_given natural_order
   \<and> list_products natural_order no_reading no_text
         [ex_retired, ex_keyboard\<lparr>oid := ex_bob\<rparr>] ex_list_all
       = Inr \<lparr>page = JNum (Fin 1), limit = JNum (Fin 10), total = 1,
              items = [ex_keyboard\<lparr>oid := ex_bob\<rparr>]\<rparr>
   \<and> active (ex_keyboard\<lparr>oid := ex_bob\<rparr>)
   \<and> castObjectId ex_pid = Some ex_pid \<and> lookup [ex_retired] ex_pid = Some ex_retired
   \<and> \<not> active ex_retired
   \<and> get_product [ex_retired] ex_pid = Inl (AppError msg_not_found 404)
   \<and> \<not> isMongoId ex_id_422
   \<and> get_product [ex_retired] ex_id_422 = Inl (ValidationError [''id''])"
proof -
  have h: "returns_given natural_order"
    by (auto simp: returns_given_def natural_order_def)
  have q: "list_query ex_list_all =
      \<lparr>q_filter = \<lparr>f_active = True, f_text = None\<rparr>,
       q_sorting = [''createdAt'' \<mapsto> - 1], q_skip = Fin 0, q_lim = JNum (Fin 10)\<rparr>"
    by (simp add: list_query_def ex_list_all_def page_of_def limit_of_def or_default_def
        filter_of_def sort_of_def to_double_def)
  have l: "list_products natural_order no_reading no_text
         [ex_retired, ex_keyboard\<lparr>oid := ex_bob\<rparr>] ex_list_all
       = Inr \<lparr>page = JNum (Fin 1), limit = JNum (Fin 10), total = 1,
              items = [ex_keyboard\<lparr>oid := ex_bob\<rparr>]\<rparr>"
    unfolding list_products_def q
    by (simp add: list_checks_def ex_list_all_def page_of_def limit_of_def or_default_def
        countDocuments_def filter_of_def matches_def find_docs_def castNumber_def db_count_def
        natural_order_def ex_retired_def ex_keyboard_def)
  have a: "active (ex_keyboard\<lparr>oid := ex_bob\<rparr>)" by (simp add: ex_keyboard_def)
  have k: "lookup [ex_retired] ex_pid = Some ex_retired"
    by (simp add: lookup_def ex_retired_def ex_keyboard_def)
  have n: "\<not> active ex_retired" by (simp add: ex_retired_def)
  have m: "\<not> isMongoId ex_id_422" by (simp add: ex_id_422_def isMongoId_def)
  from inactive_products_never_observable [OF h, of ex_list_all no_reading no_text "[ex_retired]" ex_pid]
    inactive_products_never_observable [OF h, of ex_list_all no_reading no_text "[ex_retired]" ex_id_422]
    h l a k n m ex_pid_cast
  show ?thesis by blast
qed

section \<open>Pagination\<close>





text \<open>On a string of decimal digits, \<open>parseInt\<close> and the conversion to a number read the
  same integer.\<close>

lemma digit_not_space: "is_digit c \<Longrightarrow> \<not> is_space c"
  by (auto simp: is_digit_def is_space_def)









text \<open>
  What the validator reads and what the handler uses differ on other strings as well:
  the limit \<open>2e2\<close> passes validation as 2 and asks the database for 200 documents, and
  the sort \<open>-\<close> passes validation and is refused by the database.
\<close>

lemma exponent_limit_passes:
  "list_checks ex_exponent_limit = []
   \<and> castNumber (q_lim (list_query ex_exponent_limit)) = Some (Fin 200)"
  by code_simp

lemma sort_dash_is_500:
  "list_checks ex_sort_dash = []
   \<and> list_products natural_order no_reading no_text [] ex_sort_dash = Inl InternalError"
  by code_simp



section \<open>Sort construction\<close>

lemma split_not_empty: "split x sep \<noteq> []"
  by (induction x) (auto split: list.splits)

lemma join_split: "join (split x sep) sep = x"
proof (induction x)
  case Nil
  then show ?case by simp
next
  case (Cons c cs)
  obtain t ts where s: "split cs sep = t # ts"
    using split_not_empty [of cs sep] by (cases "split cs sep") auto
  show ?case using Cons s by (cases ts) auto
qed

lemma split_no_sep: "t \<in> set (split x sep) \<Longrightarrow> sep \<notin> set t"
  by (induction x arbitrary: t) (auto split: if_splits list.splits)

lemma foldl_sort_step:
  "k \<noteq> ''__proto__'' \<Longrightarrow>
   foldl sort_step m ts k =
     (case List.find (\<lambda>t. spec_field t = k) (rev ts) of
        None \<Rightarrow> m k
      | Some t \<Rightarrow> Some (spec_direction t))"
  by (induction ts rule: rev_induct)
    (auto simp: sort_step_def set_prop_def spec_field_def spec_direction_def)

text \<open>A token naming \<open>__proto__\<close> leaves the sort object as it was.\<close>

lemma foldl_sort_step_proto:
  "foldl sort_step m ts ''__proto__'' = m ''__proto__''"
  by (induction ts rule: rev_induct) (auto simp: sort_step_def set_prop_def)

text \<open>
  The empty sort parameter is present, and its one token (the empty field, ascending) is
  not what the query sorts by: the guard \<open>if (req.query.sort)\<close> treats it as absent.
\<close>

theorem empty_sort_counterexample:
  "split [] (CHR '','') = [[]]
   \<and> spec_sort (split [] (CHR '','')) [] = Some 1
   \<and> sort_of (Some []) [] = None
   \<and> sort_of (Some []) ''createdAt'' = Some (- 1)"
  by (simp add: spec_sort_def spec_field_def spec_direction_def sort_of_def)

text \<open>
  C9, as amended. When the sort parameter is absent or empty, the sort is by
  \<open>createdAt\<close> descending. For every non-empty sort parameter, the tokens are the
  pieces of the string between its commas (joined by commas they give the string back,
  and none contains a comma), and the sort object maps every key other than
  \<open>__proto__\<close> as the tokens say: a field named by no token has no entry, and a field
  named by a token has the direction of the last token naming it, descending for a token
  with a leading \<open>-\<close> and ascending otherwise.
\<close>

theorem sort_of_tokens:
  "sort_of None = [''createdAt'' \<mapsto> - 1]
   \<and> sort_of (Some []) = [''createdAt'' \<mapsto> - 1]
   \<and> (x \<noteq> [] \<longrightarrow>
        join (split x (CHR '','')) (CHR '','') = x
        \<and> (\<forall>t \<in> set (split x (CHR '','')). CHR '','' \<notin> set t)
        \<and> (\<forall>k. k \<noteq> ''__proto__'' \<longrightarrow> sort_of (Some x) k = spec_sort (split x (CHR '','')) k))"
proof -
  have a: "sort_of None = [''createdAt'' \<mapsto> - 1]" "sort_of (Some []) = [''createdAt'' \<mapsto> - 1]"
    by (simp_all add: sort_of_def)
  have b: "\<forall>k. k \<noteq> ''__proto__'' \<longrightarrow> sort_of (Some x) k = spec_sort (split x (CHR '','')) k"
    if "x \<noteq> []"
    using that by (auto simp: sort_of_def spec_sort_def foldl_sort_step split: option.splits)
  from a b join_split [of x "CHR '',''"] split_no_sep [of _ x "CHR '',''"]
  show ?thesis by blast
qed

theorem sort_of_tokens_witness:
  "''price,-createdAt'' \<noteq> []
   \<and> split ''price,-createdAt'' (CHR '','') = [''price'', ''-createdAt'']
   \<and> sort_of (Some ''price,-createdAt'') ''price'' = Some 1
   \<and> sort_of (Some ''price,-createdAt'') ''createdAt'' = Some (- 1)
   \<and> sort_of (Some ''price,-createdAt'') ''name'' = None"
proof -
  have s: "split ''price,-createdAt'' (CHR '','') = [''price'', ''-createdAt'']" by simp
  have v: "spec_sort [''price'', ''-createdAt''] ''price'' = Some 1"
    "spec_sort [''price'', ''-createdAt''] ''createdAt'' = Some (- 1)"
    "spec_sort [''price'', ''-createdAt''] ''name'' = None"
    by (simp_all add: spec_sort_def spec_field_def spec_direction_def)
  have n: "''price'' \<noteq> ''__proto__''" "''createdAt'' \<noteq> ''__proto__''" "''name'' \<noteq> ''__proto__''"
    by simp_all
  from sort_of_tokens [of "''price,-createdAt''"] s v n
  show ?thesis by simp
qed

section \<open>Login\<close>

text \<open>
  C7. Among the logins that pass validation, one with an email no user has and one with
  the email of a user and a password that \<open>comparePassword\<close> refuses give the same
  result: the error \<open>AppError msg_credentials 401\<close>.
\<close>

theorem login_failures_indistinguishable:
  assumes "login_checks isEmail e1 pw1 = []" and "login_checks isEmail e2 pw2 = []"
    and "findOne us e1 = None" and "findOne us e2 = Some u" and "\<not> comparePassword u pw2"
  shows "login isEmail comparePassword sign us e1 pw1 = Inl (AppError msg_credentials 401)
       \<and> login isEmail comparePassword sign us e2 pw2 = Inl (AppError msg_credentials 401)
       \<and> login isEmail comparePassword sign us e1 pw1 = login isEmail comparePassword sign us e2 pw2"
  using assms by (simp add: login_def)

theorem login_failures_indistinguishable_witness:
  "login_checks ex_isEmail ''nobody@mail.com'' ''123456'' = []
   \<and> login_checks ex_isEmail ''lucas@mail.com'' ''654321'' = []
   \<and> findOne [ex_lucas] ''nobody@mail.com'' = None
   \<and> findOne [ex_lucas] ''lucas@mail.com'' = Some ex_lucas
   \<and> \<not> ex_compare ex_lucas ''654321''
   \<and> login ex_isEmail ex_compare ex_sign [ex_lucas] ''nobody@mail.com'' ''123456''
       = login ex_isEmail ex_compare ex_sign [ex_lucas] ''lucas@mail.com'' ''654321''"
proof -
  have h1: "login_checks ex_isEmail ''nobody@mail.com'' ''123456'' = []"
    and h2: "login_checks ex_isEmail ''lucas@mail.com'' ''654321'' = []"
    by (simp_all add: login_checks_def ex_isEmail_def)
  have h3: "findOne [ex_lucas] ''nobody@mail.com'' = None"
    and h4: "findOne [ex_lucas] ''lucas@mail.com'' = Some ex_lucas"
    by (simp_all add: findOne_def ex_lucas_def)
  have h5: "\<not> ex_compare ex_lucas ''654321''"
    by (simp add: ex_compare_def ex_lucas_def)
  from login_failures_indistinguishable
      [where comparePassword = ex_compare and sign = ex_sign, OF h1 h2 h3 h4 h5] h1 h2 h3 h4 h5
  show ?thesis by simp
qed

section \<open>The auth guard and the Bearer prefix\<close>

lemma startsWith_append: "startsWith h p \<longleftrightarrow> (\<exists>t. h = p @ t)"
  by (induction h p rule: startsWith.induct) auto

text \<open>A token that the verification refuses is answered with the other 401 error.\<close>

lemma auth_rejects_when_verify_fails:
  "t \<noteq> [] \<Longrightarrow> verify t = None \<Longrightarrow>
   auth verify (Some (''Bearer '' @ t)) = Inl (AppError msg_bad_token 401)"
  by (simp add: auth_def)

text \<open>
  C10. When the authorization header is absent or does not start with the seven
  characters \<open>Bearer \<close> (compared exactly, so also by case), the guard fails with the
  401 error "token not given", whatever the verification function is: it is not
  called. The guard lets a request through only when the header is \<open>Bearer \<close> followed
  by a non-empty token that the verification accepts, and every failure of the guard
  has status 401.
\<close>

theorem auth_requires_bearer_prefix:
  "((authorization = None \<or> (\<exists>h. authorization = Some h \<and> \<not> startsWith h ''Bearer '')) \<longrightarrow>
      (\<forall>v. auth v authorization = Inl (AppError msg_no_token 401)))
   \<and> (startsWith h ''Bearer '' \<longleftrightarrow> (\<exists>t. h = ''Bearer '' @ t))
   \<and> (auth verify authorization = Inr u \<longrightarrow>
        (\<exists>t. authorization = Some (''Bearer '' @ t) \<and> t \<noteq> [] \<and>
             verify t = Some \<lparr>sub = user_id u, email = user_email u\<rparr>))
   \<and> (\<forall>e. auth verify authorization = Inl e \<longrightarrow> statusCode e = 401)"
proof -
  have a: "(authorization = None \<or> (\<exists>h. authorization = Some h \<and> \<not> startsWith h ''Bearer '')) \<longrightarrow>
      (\<forall>v. auth v authorization = Inl (AppError msg_no_token 401))"
    by (auto simp: auth_def)
  have b: "startsWith h ''Bearer '' \<longleftrightarrow> (\<exists>t. h = ''Bearer '' @ t)"
    by (rule startsWith_append)
  have c: "auth verify authorization = Inr u \<longrightarrow>
        (\<exists>t. authorization = Some (''Bearer '' @ t) \<and> t \<noteq> [] \<and>
             verify t = Some \<lparr>sub = user_id u, email = user_email u\<rparr>)"
  proof
    assume ok: "auth verify authorization = Inr u"
    then obtain hd where hd: "authorization = Some hd" and sw: "startsWith hd ''Bearer ''"
      by (cases authorization) (auto simp: auth_def split: if_splits)
    from sw obtain t where t: "hd = ''Bearer '' @ t"
      unfolding startsWith_append by blast
    from ok hd t have "t \<noteq> []" and "\<exists>pl. verify t = Some pl \<and> u = \<lparr>user_id = sub pl, user_email = email pl\<rparr>"
      by (auto simp: auth_def split: if_splits option.splits)
    then show "\<exists>t. authorization = Some (''Bearer '' @ t) \<and> t \<noteq> [] \<and>
             verify t = Some \<lparr>sub = user_id u, email = user_email u\<rparr>"
      using hd t by auto
  qed
  have d: "\<forall>e. auth verify authorization = Inl e \<longrightarrow> statusCode e = 401"
    by (auto simp: auth_def Let_def split: if_splits option.splits)
  from a b c d show ?thesis by blast
qed

theorem auth_requires_bearer_prefix_witness:
  "\<not> startsWith ''bearer abc'' ''Bearer ''
   \<and> auth ex_verify (Some ''bearer abc'') = Inl (AppError msg_no_token 401)
   \<and> auth ex_verify None = Inl (AppError msg_no_token 401)
   \<and> auth ex_verify (Some ''Bearer abc'') = Inr \<lparr>user_id = ex_alice, user_email = ''lucas@mail.com''\<rparr>"
proof -
  have h: "\<not> startsWith ''bearer abc'' ''Bearer ''" by simp
  have ok: "auth ex_verify (Some ''Bearer abc'') = Inr \<lparr>user_id = ex_alice, user_email = ''lucas@mail.com''\<rparr>"
    by (simp add: auth_def ex_verify_def)
  from auth_requires_bearer_prefix [of "Some ''bearer abc''"] auth_requires_bearer_prefix [of None] h ok
  show ?thesis by simp
qed

section \<open>Token round trip\<close>

lemma verify_issued:
  "verify_token secret now (issue secret t0 ttl uid mail) =
     (if t0 + ttl \<le> now then None else Some \<lparr>sub = uid, email = mail\<rparr>)"
  by (simp add: verify_token_def issue_def)

lemma auth_unverified_is_401:
  assumes "verify text = None"
  shows "\<exists>e. auth verify (Some (''Bearer '' @ text)) = Inl e \<and> statusCode e = 401"
  using assms by (cases "text = []") (simp_all add: auth_def)

lemma auth_verified:
  assumes "verify text = Some \<lparr>sub = uid, email = mail\<rparr>" and "text \<noteq> []"
  shows "auth verify (Some (''Bearer '' @ text)) = Inr \<lparr>user_id = uid, user_email = mail\<rparr>"
  using assms by (simp add: auth_def)

text \<open>The token a successful login returns is the text of the token issued for the
  user's id and email.\<close>

lemma login_issues_token:
  assumes "login isEmail comparePassword (jwt_sign encode secret t0 ttl) us e pw = Inr resp"
  shows "\<exists>u. findOne us e = Some u \<and> r_id resp = u_id u \<and> r_email resp = u_email u \<and>
           r_token resp = encode (issue secret t0 ttl (u_id u) (u_email u))"
  using assms
  by (auto simp: login_def jwt_sign_def split: if_splits option.splits)

text \<open>
  C6. On the token service as the specification describes it: the token issued for a
  user id and an email, verified with the same secret before its expiry, yields that
  subject and email, and the guard lets the request through as that user. A token that
  keeps the signature of an issued token and has another payload or expiry, or keeps
  its payload and expiry and has another signature, fails verification at every time;
  so does every token at or after its expiry, and every malformed text. Whenever
  verification fails, the guard rejects the request with status 401.
\<close>

theorem token_round_trip:
  "(decode text = Some (issue secret t0 ttl uid mail) \<and> now < t0 + ttl \<longrightarrow>
      jwt_verify decode secret now text = Some \<lparr>sub = uid, email = mail\<rparr> \<and>
      (text \<noteq> [] \<longrightarrow>
         auth (jwt_verify decode secret now) (Some (''Bearer '' @ text))
           = Inr \<lparr>user_id = uid, user_email = mail\<rparr>))
   \<and> (decode text = Some t \<and>
        (((claims t \<noteq> claims (issue secret t0 ttl uid mail) \<or>
           expiry t \<noteq> expiry (issue secret t0 ttl uid mail)) \<and>
          sig t = sig (issue secret t0 ttl uid mail))
         \<or> (claims t = claims (issue secret t0 ttl uid mail) \<and>
             expiry t = expiry (issue secret t0 ttl uid mail) \<and>
             sig t \<noteq> sig (issue secret t0 ttl uid mail))) \<longrightarrow>
      jwt_verify decode secret now text = None)
   \<and> (decode text = Some t \<and> expiry t \<le> now \<longrightarrow> jwt_verify decode secret now text = None)
   \<and> (decode text = None \<longrightarrow> jwt_verify decode secret now text = None)
   \<and> (jwt_verify decode secret now text = None \<longrightarrow>
        (\<exists>e. auth (jwt_verify decode secret now) (Some (''Bearer '' @ text)) = Inl e \<and>
             statusCode e = 401))"
proof -
  have rt: "decode text = Some (issue secret t0 ttl uid mail) \<and> now < t0 + ttl \<longrightarrow>
      jwt_verify decode secret now text = Some \<lparr>sub = uid, email = mail\<rparr> \<and>
      (text \<noteq> [] \<longrightarrow>
         auth (jwt_verify decode secret now) (Some (''Bearer '' @ text))
           = Inr \<lparr>user_id = uid, user_email = mail\<rparr>)"
  proof (intro impI, elim conjE)
    assume d: "decode text = Some (issue secret t0 ttl uid mail)" and n: "now < t0 + ttl"
    then have v: "jwt_verify decode secret now text = Some \<lparr>sub = uid, email = mail\<rparr>"
      by (simp add: jwt_verify_def verify_issued)
    with auth_verified [of "jwt_verify decode secret now" "text" uid mail] show "jwt_verify decode secret now text = Some \<lparr>sub = uid, email = mail\<rparr> \<and>
      (text \<noteq> [] \<longrightarrow>
         auth (jwt_verify decode secret now) (Some (''Bearer '' @ text))
           = Inr \<lparr>user_id = uid, user_email = mail\<rparr>)"
      by simp
  qed
  have alt: "decode text = Some t \<and>
        (((claims t \<noteq> claims (issue secret t0 ttl uid mail) \<or>
           expiry t \<noteq> expiry (issue secret t0 ttl uid mail)) \<and>
          sig t = sig (issue secret t0 ttl uid mail))
         \<or> (claims t = claims (issue secret t0 ttl uid mail) \<and>
             expiry t = expiry (issue secret t0 ttl uid mail) \<and>
             sig t \<noteq> sig (issue secret t0 ttl uid mail))) \<longrightarrow>
      jwt_verify decode secret now text = None"
    by (auto simp: jwt_verify_def verify_token_def issue_def)
  have ex: "decode text = Some t \<and> expiry t \<le> now \<longrightarrow> jwt_verify decode secret now text = None"
    by (simp add: jwt_verify_def verify_token_def)
  have mal: "decode text = None \<longrightarrow> jwt_verify decode secret now text = None"
    by (simp add: jwt_verify_def)
  have rej: "jwt_verify decode secret now text = None \<longrightarrow>
        (\<exists>e. auth (jwt_verify decode secret now) (Some (''Bearer '' @ text)) = Inl e \<and>
             statusCode e = 401)"
    using auth_unverified_is_401 by blast
  from rt alt ex mal rej show ?thesis by blast
qed

theorem token_round_trip_witness:
  "ex_decode ''issued'' = Some (issue ''secret'' 100 3600 ex_alice ''lucas@mail.com'')
   \<and> (200 :: nat) < 100 + 3600
   \<and> auth (jwt_verify ex_decode ''secret'' 200) (Some ''Bearer issued'')
       = Inr \<lparr>user_id = ex_alice, user_email = ''lucas@mail.com''\<rparr>
   \<and> ex_decode ''forged'' = Some ex_forged
   \<and> claims ex_forged \<noteq> claims (issue ''secret'' 100 3600 ex_alice ''lucas@mail.com'')
   \<and> sig ex_forged = sig (issue ''secret'' 100 3600 ex_alice ''lucas@mail.com'')
   \<and> jwt_verify ex_decode ''secret'' 200 ''forged'' = None
   \<and> auth (jwt_verify ex_decode ''secret'' 200) (Some ''Bearer forged'')
       = Inl (AppError msg_bad_token 401)
   \<and> expiry ex_token \<le> 3700
   \<and> jwt_verify ex_decode ''secret'' 3700 ''issued'' = None"
proof -
  have d1: "ex_decode ''issued'' = Some (issue ''secret'' 100 3600 ex_alice ''lucas@mail.com'')"
    by (simp add: ex_decode_def ex_token_def)
  have n: "(200 :: nat) < 100 + 3600" by simp
  have d2: "ex_decode ''forged'' = Some ex_forged" by (simp add: ex_decode_def)
  have f1: "claims ex_forged \<noteq> claims (issue ''secret'' 100 3600 ex_alice ''lucas@mail.com'')"
    by (simp add: ex_forged_def ex_token_def issue_def ex_alice_def ex_bob_def)
  have f2: "sig ex_forged = sig (issue ''secret'' 100 3600 ex_alice ''lucas@mail.com'')"
    by (simp add: ex_forged_def ex_token_def)
  have e: "expiry ex_token \<le> 3700" by (simp add: ex_token_def issue_def)
  have d3: "ex_decode ''issued'' = Some ex_token" by (simp add: ex_decode_def)
  have b: "''Bearer '' @ ''issued'' = ''Bearer issued''" "''Bearer '' @ ''forged'' = ''Bearer forged''"
    by simp_all
  have bad: "auth (jwt_verify ex_decode ''secret'' 200) (Some ''Bearer forged'')
       = Inl (AppError msg_bad_token 401)"
    using token_round_trip [of ex_decode "''forged''" "''secret''" 100 3600 ex_alice
        "''lucas@mail.com''" 200 ex_forged] d2 f1 f2
    by (simp add: auth_def)
  from token_round_trip [of ex_decode "''issued''" "''secret''" 100 3600 ex_alice
      "''lucas@mail.com''" 200 ex_token]
    token_round_trip [of ex_decode "''forged''" "''secret''" 100 3600 ex_alice
      "''lucas@mail.com''" 200 ex_forged]
    token_round_trip [of ex_decode "''issued''" "''secret''" 100 3600 ex_alice
      "''lucas@mail.com''" 3700 ex_token]
    d1 n d2 f1 f2 e d3 bad
  show ?thesis by (simp add: b [symmetric] del: append.simps)
qed

end
